theory Spec2Isabelle
  imports Complex_Main "HOL-Library.Char_ord" "HOL-Library.List_Lexorder"
    "HOL-Library.Product_Lexorder"
begin

section \<open>Data model\<close>

text \<open>
  The pipeline works on pandas data frames. A frame is modelled as the list of its rows,
  in frame order; a row is a record with one field per CSV column. A missing cell (NaN,
  NaT, None) is \<open>None\<close>. Floating-point numbers are idealised as exact rationals.
  The row labels (the pandas index) are not modelled: the reader yields frames with a
  unique index, and every column assignment of the cleaner aligns on it row by row.
\<close>

type_synonym date = "nat \<times> nat \<times> nat"  \<comment> \<open>year, month, day\<close>

text \<open>
  The \<open>quantity\<close> column is read with dtype \<open>object\<close>: its cells are text, numbers or
  missing. After cleaning the column is numeric.
\<close>

datatype qcell = QNum rat | QText string | QNaN

text \<open>
  The \<open>sale_date\<close> column is read as text; after cleaning it holds timestamps; the
  anomaly report renders it as text again.
\<close>

datatype dcell = DDate date | DText string | DNaT

record row =
  order_id :: "string option"
  product_name :: "string option"
  category :: "string option"
  quantity :: qcell
  unit_price :: "rat option"
  discount_percent :: "rat option"
  region :: "string option"
  sale_date :: dcell
  revenue :: "rat option"

type_synonym frame = "row list"

datatype py_error = ZeroDivisionError | ValueError | KeyError

text \<open>
  The two pandas parsers the cleaner calls are parameters of the model:
  \<open>to_numeric s\<close> is \<open>pd.to_numeric\<close> with \<open>errors='coerce'\<close> on a text cell, and
  \<open>to_datetime fmt s\<close> is \<open>pd.to_datetime\<close> with \<open>format=fmt, errors='coerce'\<close> on a
  text cell; \<open>None\<close> is the coerced NaN/NaT.
\<close>

record pandas =
  to_numeric :: "string \<Rightarrow> rat option"
  to_datetime :: "string \<Rightarrow> string \<Rightarrow> date option"

section \<open>Settings (config/settings.py)\<close>

definition MIN_QUANTITY :: rat where "MIN_QUANTITY = 0"
definition MAX_QUANTITY :: rat where "MAX_QUANTITY = 10000"
definition MIN_PRICE :: rat where "MIN_PRICE = 1 / 100"
definition MAX_PRICE :: rat where "MAX_PRICE = 100000"
definition MIN_DISCOUNT :: rat where "MIN_DISCOUNT = 0"
definition MAX_DISCOUNT :: rat where "MAX_DISCOUNT = 100"

definition REGION_MAPPING :: "(string \<times> string) list" where
  "REGION_MAPPING =
    [(''north america'', ''North America''),
     (''n. america'', ''North America''),
     (''n america'', ''North America''),
     (''northamerica'', ''North America''),
     (''na'', ''North America''),
     (''europe'', ''Europe''),
     (''eu'', ''Europe''),
     (''europa'', ''Europe''),
     (''asia'', ''Asia''),
     (''asian'', ''Asia''),
     (''south america'', ''South America''),
     (''s. america'', ''South America''),
     (''s america'', ''South America''),
     (''southamerica'', ''South America''),
     (''sa'', ''South America''),
     (''africa'', ''Africa''),
     (''african'', ''Africa''),
     (''oceania'', ''Oceania''),
     (''australia'', ''Oceania''),
     (''pacific'', ''Oceania'')]"

definition CATEGORY_MAPPING :: "(string \<times> string) list" where
  "CATEGORY_MAPPING =
    [(''electronics'', ''Electronics''),
     (''electronic'', ''Electronics''),
     (''electrnics'', ''Electronics''),
     (''elctronics'', ''Electronics''),
     (''clothing'', ''Clothing''),
     (''clothes'', ''Clothing''),
     (''apparel'', ''Clothing''),
     (''fashion'', ''Clothing''),
     (''home & garden'', ''Home & Garden''),
     (''home and garden'', ''Home & Garden''),
     (''home'', ''Home & Garden''),
     (''garden'', ''Home & Garden''),
     (''sports'', ''Sports''),
     (''sport'', ''Sports''),
     (''sporting goods'', ''Sports''),
     (''books'', ''Books''),
     (''book'', ''Books''),
     (''toys'', ''Toys''),
     (''toy'', ''Toys''),
     (''toys & games'', ''Toys''),
     (''food'', ''Food & Beverage''),
     (''beverage'', ''Food & Beverage''),
     (''food & beverage'', ''Food & Beverage'')]"

definition DATE_FORMATS :: "string list" where
  "DATE_FORMATS =
    [''%Y-%m-%d'', ''%m/%d/%Y'', ''%d/%m/%Y'', ''%Y/%m/%d'', ''%m-%d-%Y'',
     ''%d-%m-%Y'', ''%Y%m%d'', ''%m/%d/%y'', ''%d/%m/%y'']"

section \<open>Numeric helpers\<close>

text \<open>Rounding to the nearest integer, ties to the even one, as numpy and Python round.\<close>

definition round_half_even :: "rat \<Rightarrow> int" where
  "round_half_even x =
     (let f = \<lfloor>x\<rfloor>; d = x - of_int f
      in if d < 1 / 2 then f
         else if 1 / 2 < d then f + 1
         else if even f then f else f + 1)"

definition round2 :: "rat \<Rightarrow> rat" where
  "round2 x = of_int (round_half_even (x * 100)) / 100"


section \<open>Quality tally (DataQualityIssues)\<close>

text \<open>The \<open>issues\<close> dict, in insertion order.\<close>

type_synonym issues = "(string \<times> int) list"

definition init_issues :: issues where
  "init_issues =
    [(''duplicate_orders'', 0),
     (''invalid_quantity'', 0),
     (''invalid_price'', 0),
     (''invalid_discount'', 0),
     (''invalid_date'', 0),
     (''missing_values'', 0),
     (''normalized_regions'', 0),
     (''normalized_categories'', 0),
     (''total_rows_processed'', 0),
     (''total_rows_cleaned'', 0)]"

text \<open>\<open>add_issue\<close>: the counter of a key of the dict grows by \<open>count\<close>; any other key is ignored.\<close>

definition add_issue :: "issues \<Rightarrow> string \<Rightarrow> int \<Rightarrow> issues" where
  "add_issue t issue_type count =
     map (\<lambda>(k, v). if k = issue_type then (k, v + count) else (k, v)) t"

text \<open>The guarded update \<open>if n > 0: self.quality_issues.add_issue(k, n)\<close> of the cleaning steps.\<close>

definition add_if_pos :: "issues \<Rightarrow> string \<Rightarrow> int \<Rightarrow> issues" where
  "add_if_pos t k n = (if 0 < n then add_issue t k n else t)"

section \<open>Quality report (DataPipeline._generate_quality_report)\<close>




section \<open>String and frame helpers\<close>

text \<open>
  \<open>str.lower\<close> and \<open>str.strip\<close> on ASCII text: a string is a list of bytes, the letters
  A to Z are lowered, and the ASCII white space of Python is stripped at both ends.
\<close>

definition lower_char :: "char \<Rightarrow> char" where
  "lower_char c =
     (let n = (of_char c :: nat) in if 65 \<le> n \<and> n \<le> 90 then char_of (n + 32) else c)"

definition lower :: "string \<Rightarrow> string" where
  "lower s = map lower_char s"

definition is_space :: "char \<Rightarrow> bool" where
  "is_space c = (let n = (of_char c :: nat) in (9 \<le> n \<and> n \<le> 13) \<or> (28 \<le> n \<and> n \<le> 32))"

definition strip :: "string \<Rightarrow> string" where
  "strip s = rev (dropWhile is_space (rev (dropWhile is_space s)))"

text \<open>
  \<open>drop_duplicates(subset=[key], keep='first')\<close>: a row is kept when no earlier row has
  its key; missing keys count as equal to each other. \<open>seen\<close> holds the keys met so far.
\<close>

fun keep_first :: "('a \<Rightarrow> 'k) \<Rightarrow> 'k list \<Rightarrow> 'a list \<Rightarrow> 'a list" where
  "keep_first key seen [] = []"
| "keep_first key seen (x # xs) =
     (if key x \<in> set seen then keep_first key seen xs
      else x # keep_first key (key x # seen) xs)"

definition drop_duplicates :: "('a \<Rightarrow> 'k) \<Rightarrow> 'a list \<Rightarrow> 'a list" where
  "drop_duplicates key df = keep_first key [] df"

text \<open>Reading a cell of a numeric column: text that was never converted counts as missing.\<close>

fun qnum :: "qcell \<Rightarrow> rat option" where
  "qnum (QNum q) = Some q"
| "qnum (QText s) = None"
| "qnum QNaN = None"

fun qcell_of :: "rat option \<Rightarrow> qcell" where
  "qcell_of (Some q) = QNum q"
| "qcell_of None = QNaN"

fun dcell_of :: "date option \<Rightarrow> dcell" where
  "dcell_of (Some d) = DDate d"
| "dcell_of None = DNaT"

text \<open>
  The range masks \<open>s.isna() | (s < lo) | (s > hi)\<close>: a comparison with NaN is false, so a
  missing cell is invalid through \<open>isna\<close> only.
\<close>

definition out_of_range :: "rat \<Rightarrow> rat \<Rightarrow> rat option \<Rightarrow> bool" where
  "out_of_range lo hi c = (case c of None \<Rightarrow> True | Some v \<Rightarrow> v < lo \<or> hi < v)"

definition count_where :: "('a \<Rightarrow> bool) \<Rightarrow> 'a list \<Rightarrow> int" where
  "count_where P df = int (length (filter P df))"

section \<open>Record cleaner (DataCleaner)\<close>

definition remove_duplicates :: "issues \<Rightarrow> frame \<Rightarrow> issues \<times> frame" where
  "remove_duplicates t df =
     (let initial_count = int (length df);
          df_dedup = drop_duplicates order_id df;
          duplicates_removed = initial_count - int (length df_dedup)
      in (add_if_pos t ''duplicate_orders'' duplicates_removed, df_dedup))"

text \<open>\<open>pd.to_numeric(df['quantity'], errors='coerce')\<close> on one cell.\<close>

fun coerce_numeric :: "pandas \<Rightarrow> qcell \<Rightarrow> rat option" where
  "coerce_numeric env (QNum q) = Some q"
| "coerce_numeric env (QText s) = to_numeric env s"
| "coerce_numeric env QNaN = None"

definition quantity_invalid :: "row \<Rightarrow> bool" where
  "quantity_invalid r = out_of_range MIN_QUANTITY MAX_QUANTITY (qnum (quantity r))"

definition clean_quantity :: "pandas \<Rightarrow> issues \<Rightarrow> frame \<Rightarrow> issues \<times> frame" where
  "clean_quantity env t df =
     (let df1 = map (\<lambda>r. r\<lparr>quantity := qcell_of (coerce_numeric env (quantity r))\<rparr>) df;
          invalid_count = count_where quantity_invalid df1
      in (add_if_pos t ''invalid_quantity'' invalid_count,
          map (\<lambda>r. if quantity_invalid r then r\<lparr>quantity := QNaN\<rparr> else r) df1))"

definition price_invalid :: "row \<Rightarrow> bool" where
  "price_invalid r = out_of_range MIN_PRICE MAX_PRICE (unit_price r)"

definition clean_price :: "issues \<Rightarrow> frame \<Rightarrow> issues \<times> frame" where
  "clean_price t df =
     (let invalid_count = count_where price_invalid df
      in (add_if_pos t ''invalid_price'' invalid_count,
          map (\<lambda>r. if price_invalid r then r\<lparr>unit_price := None\<rparr> else r) df))"

definition discount_invalid :: "row \<Rightarrow> bool" where
  "discount_invalid r = out_of_range MIN_DISCOUNT MAX_DISCOUNT (discount_percent r)"

definition clean_discount :: "issues \<Rightarrow> frame \<Rightarrow> issues \<times> frame" where
  "clean_discount t df =
     (let invalid_count = count_where discount_invalid df
      in (add_if_pos t ''invalid_discount'' invalid_count,
          map (\<lambda>r. if discount_invalid r then r\<lparr>discount_percent := Some 0\<rparr> else r) df))"

text \<open>
  \<open>pd.to_datetime(cell, format=fmt, errors='coerce')\<close> on one cell: a timestamp is
  returned as it is, text is parsed.
\<close>

fun parse_date :: "pandas \<Rightarrow> string \<Rightarrow> dcell \<Rightarrow> date option" where
  "parse_date env fmt (DDate d) = Some d"
| "parse_date env fmt (DText s) = to_datetime env fmt s"
| "parse_date env fmt DNaT = None"

text \<open>
  The loop over \<open>DATE_FORMATS\<close>. The frame is paired with its \<open>sale_date_parsed\<close> column;
  the mask selects the rows not parsed yet whose \<open>sale_date\<close> is present; the loop
  stops when the mask is empty. With \<open>errors='coerce'\<close> the parser does not raise, so the
  \<open>except\<close> branch is never taken.
\<close>

definition date_mask :: "row \<times> date option \<Rightarrow> bool" where
  "date_mask rp = (snd rp = None \<and> sale_date (fst rp) \<noteq> DNaT)"

fun parse_dates_loop :: "pandas \<Rightarrow> string list \<Rightarrow> (row \<times> date option) list
    \<Rightarrow> (row \<times> date option) list" where
  "parse_dates_loop env [] col = col"
| "parse_dates_loop env (date_format # rest) col =
     (if count_where date_mask col = 0 then col
      else parse_dates_loop env rest
             (map (\<lambda>rp. if date_mask rp
                         then (fst rp, parse_date env date_format (sale_date (fst rp)))
                         else rp) col))"

definition clean_dates :: "pandas \<Rightarrow> issues \<Rightarrow> frame \<Rightarrow> issues \<times> frame" where
  "clean_dates env t df =
     (let col = parse_dates_loop env DATE_FORMATS (map (\<lambda>r. (r, None)) df);
          invalid_count = count_where (\<lambda>rp. snd rp = None) col
      in (add_if_pos t ''invalid_date'' invalid_count,
          map (\<lambda>rp. (fst rp)\<lparr>sale_date := dcell_of (snd rp)\<rparr>) col))"

text \<open>\<open>s.str.lower().str.strip().map(mapping)\<close> on one cell.\<close>

definition normalized :: "(string \<times> string) list \<Rightarrow> string option \<Rightarrow> string option" where
  "normalized mapping c =
     (case c of None \<Rightarrow> None | Some s \<Rightarrow> map_of mapping (strip (lower s)))"

text \<open>\<open>normalized.fillna(original)\<close> on one cell.\<close>

definition fillna :: "'a option \<Rightarrow> 'a option \<Rightarrow> 'a option" where
  "fillna c other = (case c of None \<Rightarrow> other | Some v \<Rightarrow> Some v)"

definition region_changed :: "row \<Rightarrow> bool" where
  "region_changed r =
     (normalized REGION_MAPPING (region r) \<noteq> None
      \<and> region r \<noteq> normalized REGION_MAPPING (region r))"

definition normalize_region :: "issues \<Rightarrow> frame \<Rightarrow> issues \<times> frame" where
  "normalize_region t df =
     (let normalized_count = count_where region_changed df
      in (add_if_pos t ''normalized_regions'' normalized_count,
          map (\<lambda>r. r\<lparr>region := fillna (normalized REGION_MAPPING (region r)) (region r)\<rparr>) df))"

definition category_changed :: "row \<Rightarrow> bool" where
  "category_changed r =
     (normalized CATEGORY_MAPPING (category r) \<noteq> None
      \<and> category r \<noteq> normalized CATEGORY_MAPPING (category r))"

definition normalize_category :: "issues \<Rightarrow> frame \<Rightarrow> issues \<times> frame" where
  "normalize_category t df =
     (let normalized_count = count_where category_changed df
      in (add_if_pos t ''normalized_categories'' normalized_count,
          map (\<lambda>r. r\<lparr>category :=
                 fillna (normalized CATEGORY_MAPPING (category r)) (category r)\<rparr>) df))"

text \<open>The revenue of one row; a missing operand gives a missing revenue.\<close>

definition revenue_of :: "row \<Rightarrow> rat option" where
  "revenue_of r =
     (case (qnum (quantity r), unit_price r, discount_percent r) of
        (Some q, Some p, Some d) \<Rightarrow> Some (round2 (q * p * (1 - d / 100)))
      | _ \<Rightarrow> None)"

definition calculate_revenue :: "frame \<Rightarrow> frame" where
  "calculate_revenue df = map (\<lambda>r. r\<lparr>revenue := revenue_of r\<rparr>) df"

text \<open>\<open>dropna(subset=['order_id', 'quantity', 'unit_price', 'sale_date'])\<close> keeps these rows.\<close>

definition critical_present :: "row \<Rightarrow> bool" where
  "critical_present r =
     (order_id r \<noteq> None \<and> quantity r \<noteq> QNaN \<and> unit_price r \<noteq> None \<and> sale_date r \<noteq> DNaT)"

definition handle_missing_values :: "issues \<Rightarrow> frame \<Rightarrow> issues \<times> frame" where
  "handle_missing_values t df =
     (let initial_count = int (length df);
          df_clean = filter critical_present df;
          missing_count = initial_count - int (length df_clean)
      in (add_if_pos t ''missing_values'' missing_count, df_clean))"

definition clean_chunk :: "pandas \<Rightarrow> issues \<Rightarrow> frame \<Rightarrow> issues \<times> frame" where
  "clean_chunk env t df =
     (let t0 = add_issue t ''total_rows_processed'' (int (length df));
          (t1, df1) = remove_duplicates t0 df;
          (t2, df2) = clean_quantity env t1 df1;
          (t3, df3) = clean_price t2 df2;
          (t4, df4) = clean_discount t3 df3;
          (t5, df5) = clean_dates env t4 df4;
          (t6, df6) = normalize_region t5 df5;
          (t7, df7) = normalize_category t6 df6;
          df8 = calculate_revenue df7;
          (t9, df_clean) = handle_missing_values t7 df8
      in (add_issue t9 ''total_rows_cleaned'' (int (length df_clean)), df_clean))"

section \<open>The cleaner on frame objects\<close>

text \<open>
  Data frames are mutable objects. To follow which object each statement of
  \<open>clean_chunk\<close> writes, the store holds the frames that exist, and a reference is an
  index into it. \<open>df.copy()\<close>, \<open>drop_duplicates\<close> and \<open>dropna\<close> return a new frame
  object; the column assignments of the other steps write into the frame they are
  given and return that same object.
\<close>

type_synonym store = "frame list"

definition returns_new :: "(issues \<Rightarrow> frame \<Rightarrow> issues \<times> frame)
    \<Rightarrow> store \<Rightarrow> issues \<Rightarrow> nat \<Rightarrow> store \<times> issues \<times> nat" where
  "returns_new step h t df = (let (t', f) = step t (h ! df) in (h @ [f], t', length h))"

definition writes_in_place :: "(issues \<Rightarrow> frame \<Rightarrow> issues \<times> frame)
    \<Rightarrow> store \<Rightarrow> issues \<Rightarrow> nat \<Rightarrow> store \<times> issues \<times> nat" where
  "writes_in_place step h t df = (let (t', f) = step t (h ! df) in (h[df := f], t', df))"

text \<open>\<open>d\<close> refers to a frame of \<open>h'\<close> that did not exist in \<open>h\<close>, and the frames of \<open>h\<close> are unchanged in \<open>h'\<close>.\<close>

definition fresh_in :: "store \<Rightarrow> store \<Rightarrow> nat \<Rightarrow> bool" where
  "fresh_in h h' d = (length h \<le> d \<and> d < length h' \<and> take (length h) h' = h)"

definition clean_chunk_store :: "pandas \<Rightarrow> store \<Rightarrow> issues \<Rightarrow> nat \<Rightarrow> store \<times> issues \<times> nat" where
  "clean_chunk_store env h t df =
     (let t0 = add_issue t ''total_rows_processed'' (int (length (h ! df)));
          (h0, t0', c) = returns_new (\<lambda>t f. (t, f)) h t0 df;
          (h1, t1, d1) = returns_new remove_duplicates h0 t0' c;
          (h2, t2, d2) = writes_in_place (clean_quantity env) h1 t1 d1;
          (h3, t3, d3) = writes_in_place clean_price h2 t2 d2;
          (h4, t4, d4) = writes_in_place clean_discount h3 t3 d3;
          (h5, t5, d5) = writes_in_place (clean_dates env) h4 t4 d4;
          (h6, t6, d6) = writes_in_place normalize_region h5 t5 d5;
          (h7, t7, d7) = writes_in_place normalize_category h6 t6 d6;
          (h8, t8, d8) = writes_in_place (\<lambda>t f. (t, calculate_revenue f)) h7 t7 d7;
          (h9, t9, df_clean) = returns_new handle_missing_values h8 t8 d8
      in (h9, add_issue t9 ''total_rows_cleaned'' (int (length (h9 ! df_clean))), df_clean))"

section \<open>The repairs of one row\<close>

text \<open>
  Every step between de-duplication and the final drop treats each row on its own.
  These functions are the effect of the steps on a single row; the theorems below show
  that the frame-level steps agree with them.
\<close>

fun first_parse :: "pandas \<Rightarrow> string list \<Rightarrow> dcell \<Rightarrow> date option" where
  "first_parse env [] c = None"
| "first_parse env (date_format # rest) c =
     (case parse_date env date_format c of
        Some d \<Rightarrow> Some d
      | None \<Rightarrow> first_parse env rest c)"

definition repair_quantity :: "pandas \<Rightarrow> row \<Rightarrow> row" where
  "repair_quantity env r =
     (let r1 = r\<lparr>quantity := qcell_of (coerce_numeric env (quantity r))\<rparr>
      in if quantity_invalid r1 then r1\<lparr>quantity := QNaN\<rparr> else r1)"

definition repair_price :: "row \<Rightarrow> row" where
  "repair_price r = (if price_invalid r then r\<lparr>unit_price := None\<rparr> else r)"

definition repair_discount :: "row \<Rightarrow> row" where
  "repair_discount r = (if discount_invalid r then r\<lparr>discount_percent := Some 0\<rparr> else r)"

definition repair_date :: "pandas \<Rightarrow> row \<Rightarrow> row" where
  "repair_date env r = r\<lparr>sale_date := dcell_of (first_parse env DATE_FORMATS (sale_date r))\<rparr>"

definition repair_region :: "row \<Rightarrow> row" where
  "repair_region r = r\<lparr>region := fillna (normalized REGION_MAPPING (region r)) (region r)\<rparr>"

definition repair_category :: "row \<Rightarrow> row" where
  "repair_category r =
     r\<lparr>category := fillna (normalized CATEGORY_MAPPING (category r)) (category r)\<rparr>"

definition repair_revenue :: "row \<Rightarrow> row" where
  "repair_revenue r = r\<lparr>revenue := revenue_of r\<rparr>"

definition repair_row :: "pandas \<Rightarrow> row \<Rightarrow> row" where
  "repair_row env r =
     repair_revenue (repair_category (repair_region (repair_date env
       (repair_discount (repair_price (repair_quantity env r))))))"

text \<open>What the cleaner establishes for every row it returns.\<close>

definition cleaned_row :: "row \<Rightarrow> bool" where
  "cleaned_row r =
     (order_id r \<noteq> None
      \<and> (\<exists>q. quantity r = QNum q \<and> MIN_QUANTITY \<le> q \<and> q \<le> MAX_QUANTITY)
      \<and> (\<exists>p. unit_price r = Some p \<and> MIN_PRICE \<le> p \<and> p \<le> MAX_PRICE)
      \<and> (\<exists>d. discount_percent r = Some d \<and> MIN_DISCOUNT \<le> d \<and> d \<le> MAX_DISCOUNT)
      \<and> (\<exists>d. sale_date r = DDate d)
      \<and> fillna (normalized REGION_MAPPING (region r)) (region r) = region r
      \<and> fillna (normalized CATEGORY_MAPPING (category r)) (category r) = category r
      \<and> revenue r = revenue_of r)"

section \<open>Comparing tallies\<close>

text \<open>Comparing two tallies counter by counter, and the sign of the counters.\<close>

definition counters_le :: "issues \<Rightarrow> issues \<Rightarrow> bool" where
  "counters_le t t' = list_all2 (\<lambda>a b. fst a = fst b \<and> snd a \<le> snd b) t t'"

definition counters_nonneg :: "issues \<Rightarrow> bool" where
  "counters_nonneg t = list_all (\<lambda>kv. 0 \<le> snd kv) t"

text \<open>One step of the tally: no counter decreases, and non-negative counters stay so.\<close>

definition tally_step :: "issues \<Rightarrow> issues \<Rightarrow> bool" where
  "tally_step t t' = (counters_le t t' \<and> (counters_nonneg t \<longrightarrow> counters_nonneg t'))"

definition totals_ok :: "issues \<Rightarrow> bool" where
  "totals_ok t = (\<exists>p c. map_of t ''total_rows_processed'' = Some p
      \<and> map_of t ''total_rows_cleaned'' = Some c \<and> c \<le> p)"

section \<open>Streaming aggregator (DataAggregator)\<close>

type_synonym period = "nat \<times> nat"  \<comment> \<open>year, month\<close>

text \<open>
  A row of a monthly frame. The batch frames are keyed by the period and hold the
  quantity total as a number; the final frame is keyed by the period's text and holds
  the quantity total as an integer.
\<close>

record ('k, 'q) monthly_row =
  year_month :: 'k
  total_revenue :: rat
  total_quantity :: 'q
  avg_discount :: "rat option"

record 'u product_row =
  name :: string
  revenue_total :: rat
  total_units_sold :: 'u
  rank_by :: string

record aggregator =
  monthly_sales :: "(period, rat) monthly_row list list"
  product_revenue :: "(string \<times> rat) list"
  product_units :: "(string \<times> rat) list"
  all_records :: "frame list"

definition init_aggregator :: aggregator where
  "init_aggregator =
     \<lparr>monthly_sales = [], product_revenue = [], product_units = [], all_records = []\<rparr>"

text \<open>
  \<open>groupby(key)\<close>: one group per key present, in ascending key order; rows with a
  missing key belong to no group.
\<close>

definition groupby :: "('a \<Rightarrow> 'k::linorder option) \<Rightarrow> 'a list \<Rightarrow> ('k \<times> 'a list) list" where
  "groupby key df =
     map (\<lambda>k. (k, filter (\<lambda>r. key r = Some k) df)) (sort (remdups (List.map_filter key df)))"

text \<open>The aggregations \<open>sum\<close> and \<open>mean\<close> of a column skip its missing cells.\<close>

definition col_sum :: "rat option list \<Rightarrow> rat" where
  "col_sum cells = sum_list (List.map_filter id cells)"

definition col_mean :: "rat option list \<Rightarrow> rat option" where
  "col_mean cells =
     (let present = List.map_filter id cells
      in if present = [] then None else Some (sum_list present / of_nat (length present)))"

text \<open>
  \<open>nlargest(n, column)\<close> with \<open>keep='first'\<close>: the rows in descending order of the
  column, rows with equal values in frame order, rows with a missing value last; the
  first \<open>n\<close> of them.
\<close>

definition nlargest :: "nat \<Rightarrow> ('a \<Rightarrow> rat option) \<Rightarrow> 'a list \<Rightarrow> 'a list" where
  "nlargest n key df =
     take n
       (map snd (sort_key (\<lambda>vr. - fst vr)
           (List.map_filter (\<lambda>r. map_option (\<lambda>v. (v, r)) (key r)) df))
        @ filter (\<lambda>r. key r = None) df)"

text \<open>\<open>pd.concat\<close> raises ValueError on an empty list of frames.\<close>

definition pd_concat :: "'a list list \<Rightarrow> py_error + 'a list" where
  "pd_concat frames = (if frames = [] then Inl ValueError else Inr (concat frames))"

text \<open>\<open>d[k] = d.get(k, 0) + v\<close> on a dict in insertion order.\<close>

definition dict_add :: "(string \<times> rat) list \<Rightarrow> string \<Rightarrow> rat \<Rightarrow> (string \<times> rat) list" where
  "dict_add d k v =
     (case map_of d k of
        None \<Rightarrow> d @ [(k, 0 + v)]
      | Some old \<Rightarrow> map (\<lambda>(k', x). if k' = k then (k', old + v) else (k', x)) d)"

text \<open>
  \<open>dt.to_period('M')\<close> of a cell of the cleaned \<open>sale_date\<close> column. A cleaned frame
  holds timestamps only; other cells have no period.
\<close>

fun period_of :: "dcell \<Rightarrow> period option" where
  "period_of (DDate (y, m, d)) = Some (y, m)"
| "period_of (DText s) = None"
| "period_of DNaT = None"

definition monthly_chunk_of :: "frame \<Rightarrow> (period, rat) monthly_row list" where
  "monthly_chunk_of df =
     map (\<lambda>(k, g). \<lparr>year_month = k,
                    total_revenue = col_sum (map revenue g),
                    total_quantity = col_sum (map (\<lambda>r. qnum (quantity r)) g),
                    avg_discount = col_mean (map discount_percent g)\<rparr>)
         (groupby (\<lambda>r. period_of (sale_date r)) df)"

definition product_chunk_of :: "frame \<Rightarrow> (string \<times> rat \<times> rat) list" where
  "product_chunk_of df =
     map (\<lambda>(k, g). (k, col_sum (map revenue g), col_sum (map (\<lambda>r. qnum (quantity r)) g)))
         (groupby product_name df)"

definition process_chunk :: "aggregator \<Rightarrow> frame \<Rightarrow> aggregator" where
  "process_chunk agg df =
     (let monthly_chunk = monthly_chunk_of df;
          product_chunk = product_chunk_of df;
          top_chunk = nlargest 1000 revenue df
      in \<lparr>monthly_sales = monthly_sales agg @ [monthly_chunk],
          product_revenue =
            fold (\<lambda>(product, rv, qt) d. dict_add d product rv) product_chunk (product_revenue agg),
          product_units =
            fold (\<lambda>(product, rv, qt) d. dict_add d product qt) product_chunk (product_units agg),
          all_records = all_records agg @ [top_chunk]\<rparr>)"

text \<open>Decimal rendering with leading zeros, for \<open>astype(str)\<close> and \<open>strftime\<close>.\<close>

definition digit :: "nat \<Rightarrow> char" where
  "digit n = char_of (48 + n mod 10)"

definition pad2 :: "nat \<Rightarrow> string" where
  "pad2 n = [digit (n div 10), digit n]"

definition pad4 :: "nat \<Rightarrow> string" where
  "pad4 n = [digit (n div 1000), digit (n div 100), digit (n div 10), digit n]"

definition period_str :: "period \<Rightarrow> string" where
  "period_str ym = pad4 (fst ym) @ ''-'' @ pad2 (snd ym)"

fun strftime :: "dcell \<Rightarrow> dcell" where
  "strftime (DDate (y, m, d)) = DText (pad4 y @ ''-'' @ pad2 m @ ''-'' @ pad2 d)"
| "strftime (DText s) = DText s"
| "strftime DNaT = DNaT"

text \<open>\<open>astype(int)\<close> on a number truncates towards zero.\<close>

definition trunc :: "rat \<Rightarrow> int" where
  "trunc x = (if 0 \<le> x then \<lfloor>x\<rfloor> else \<lceil>x\<rceil>)"

definition get_monthly_sales_summary ::
    "aggregator \<Rightarrow> py_error + (string, int) monthly_row list" where
  "get_monthly_sales_summary agg =
     (if monthly_sales agg = [] then Inr []
      else case pd_concat (monthly_sales agg) of
        Inl e \<Rightarrow> Inl e
      | Inr combined \<Rightarrow>
          (let final_monthly =
                 map (\<lambda>(k, g). \<lparr>year_month = k,
                                total_revenue = sum_list (map total_revenue g),
                                total_quantity = sum_list (map total_quantity g),
                                avg_discount = col_mean (map avg_discount g)\<rparr>)
                     (groupby (\<lambda>m. Some (year_month m)) combined);
               rounded =
                 map (\<lambda>m. \<lparr>year_month = period_str (year_month m),
                           total_revenue = round2 (total_revenue m),
                           total_quantity = trunc (total_quantity m),
                           avg_discount = map_option round2 (avg_discount m)\<rparr>)
                     final_monthly
           in Inr (sort_key year_month rounded)))"

text \<open>
  The frame built from the two product dicts, in the key order of \<open>product_revenue\<close>;
  \<open>self.product_units[p]\<close> raises KeyError on a missing product.
\<close>

fun products_frame :: "(string \<times> rat) list \<Rightarrow> (string \<times> rat) list
    \<Rightarrow> py_error + rat product_row list" where
  "products_frame [] units = Inr []"
| "products_frame ((p, rv) # rest) units =
     (case map_of units p of
        None \<Rightarrow> Inl KeyError
      | Some u \<Rightarrow>
          (case products_frame rest units of
             Inl e \<Rightarrow> Inl e
           | Inr rows \<Rightarrow>
               Inr (\<lparr>name = p, revenue_total = rv, total_units_sold = u, rank_by = []\<rparr> # rows)))"

text \<open>
  The last step sorts by revenue in descending order; rows of equal revenue keep their
  order.
\<close>

definition get_top_products :: "aggregator \<Rightarrow> nat \<Rightarrow> py_error + int product_row list" where
  "get_top_products agg top_n =
     (if product_revenue agg = [] then Inr []
      else case products_frame (product_revenue agg) (product_units agg) of
        Inl e \<Rightarrow> Inl e
      | Inr products_df \<Rightarrow>
          (let top_by_revenue =
                 map (\<lambda>r. r\<lparr>rank_by := ''revenue''\<rparr>)
                     (nlargest top_n (\<lambda>r. Some (revenue_total r)) products_df);
               top_by_units =
                 map (\<lambda>r. r\<lparr>rank_by := ''units''\<rparr>)
                     (nlargest top_n (\<lambda>r. Some (total_units_sold r)) products_df);
               top_products = drop_duplicates name (top_by_revenue @ top_by_units);
               rounded =
                 map (\<lambda>r. \<lparr>name = name r, revenue_total = round2 (revenue_total r),
                           total_units_sold = trunc (total_units_sold r),
                           rank_by = rank_by r\<rparr>)
                     top_products
           in Inr (sort_key (\<lambda>r. - revenue_total r) rounded)))"

definition get_anomaly_records :: "aggregator \<Rightarrow> nat \<Rightarrow> py_error + frame" where
  "get_anomaly_records agg top_n =
     (if all_records agg = [] then Inr []
      else case pd_concat (all_records agg) of
        Inl e \<Rightarrow> Inl e
      | Inr combined \<Rightarrow>
          Inr (map (\<lambda>r. r\<lparr>sale_date := strftime (sale_date r)\<rparr>)
                   (nlargest top_n revenue combined)))"

section \<open>Row-batch source (ChunkedCSVReader.read_chunks)\<close>

text \<open>
  \<open>pd.read_csv\<close> with \<open>chunksize\<close> yields the rows of the file in consecutive frames of
  \<open>chunk_size\<close> rows, the last one possibly shorter. pandas rejects a chunk size below 1,
  and the reader raises ValueError when the file yields no chunk.
\<close>

fun chunked :: "nat \<Rightarrow> frame \<Rightarrow> frame list" where
  "chunked chunk_size [] = []"
| "chunked chunk_size (r # rows) =
     (if chunk_size = 0 then []
      else take chunk_size (r # rows) # chunked chunk_size (drop chunk_size (r # rows)))"

definition read_chunks :: "nat \<Rightarrow> frame \<Rightarrow> py_error + frame list" where
  "read_chunks chunk_size rows =
     (if chunk_size = 0 \<or> rows = [] then Inl ValueError else Inr (chunked chunk_size rows))"

section \<open>Pipeline orchestrator (DataPipeline)\<close>

text \<open>
  The batch loop of \<open>_process_chunks\<close>: every chunk is cleaned, and a cleaned chunk with
  at least one row is given to the aggregator. The state is the cleaner's tally and the
  aggregator.
\<close>

fun process_chunks :: "pandas \<Rightarrow> issues \<times> aggregator \<Rightarrow> frame list \<Rightarrow> issues \<times> aggregator" where
  "process_chunks env st [] = st"
| "process_chunks env st (chunk # rest) =
     (let (t', cleaned_chunk) = clean_chunk env (fst st) chunk;
          agg' = (if 0 < length cleaned_chunk then process_chunk (snd st) cleaned_chunk
                  else snd st)
      in process_chunks env (t', agg') rest)"

definition run_pipeline :: "pandas \<Rightarrow> frame list \<Rightarrow> issues \<times> aggregator" where
  "run_pipeline env chunks = process_chunks env (init_issues, init_aggregator) chunks"

section \<open>Aggregating the whole cleaned data set at once\<close>

text \<open>
  The reference the streaming aggregation is compared with, following the specification:
  the rows a batch contributes to the aggregator; one monthly row per calendar month with
  the sums of revenue and quantity over all clean records of the month, in ascending month
  order, revenue rounded to two decimals and quantity cast to an integer; and per product
  the cumulative revenue and units.
\<close>

definition clean_rows :: "pandas \<Rightarrow> frame \<Rightarrow> frame" where
  "clean_rows env df = filter critical_present (map (repair_row env) (drop_duplicates order_id df))"


definition product_sum :: "(row \<Rightarrow> rat option) \<Rightarrow> frame \<Rightarrow> string \<Rightarrow> rat" where
  "product_sum col df p = col_sum (map col (filter (\<lambda>r. product_name r = Some p) df))"



section \<open>Example data\<close>

text \<open>
  A small instance of the pandas parsers, rows as the reader yields them, their cleaned
  forms, and a data set of three orders, for the concrete evaluations below.
\<close>

definition example_pandas :: pandas where
  "example_pandas =
     \<lparr>to_numeric = (\<lambda>s. if s = ''10'' then Some 10 else if s = ''3'' then Some 3 else None),
      to_datetime = (\<lambda>fmt s. if fmt = ''%Y-%m-%d'' \<and> s = ''2024-03-15''
                              then Some (2024, 3, 15) else None)\<rparr>"

definition order_a :: row where
  "order_a =
     \<lparr>order_id = Some ''A1'', product_name = Some ''Widget'', category = Some ''electronic'',
      quantity = QText ''10'', unit_price = Some 20, discount_percent = Some 10,
      region = Some ''n. america'', sale_date = DText ''2024-03-15'', revenue = None\<rparr>"

definition order_b :: row where
  "order_b = order_a\<lparr>product_name := Some ''Gadget''\<rparr>"

definition cleaned_a :: row where
  "cleaned_a =
     order_a\<lparr>category := Some ''Electronics'', quantity := QNum 10,
       region := Some ''North America'', sale_date := DDate (2024, 3, 15),
       revenue := Some 180\<rparr>"



definition order_e :: row where
  "order_e = order_a\<lparr>order_id := Some ''E5'', product_name := Some ''Gadget''\<rparr>"

definition order_bad :: row where
  "order_bad = order_a\<lparr>order_id := Some ''B2'', quantity := QText ''abc'',
     unit_price := Some 50\<rparr>"

definition cleaned_b :: row where
  "cleaned_b = cleaned_a\<lparr>product_name := Some ''Gadget''\<rparr>"



definition cleaned_e :: row where
  "cleaned_e = cleaned_a\<lparr>order_id := Some ''E5'', product_name := Some ''Gadget''\<rparr>"


section \<open>The quality report\<close>


section \<open>Helper lemmas\<close>

lemma map_fst_add_issue [simp]: "map fst (add_issue t k c) = map fst t"
  by (induction t) (auto simp: add_issue_def)

lemma map_of_add_issue:
  "map_of (add_issue t k c) k' =
     (if k' = k then map_option (\<lambda>v. v + c) (map_of t k) else map_of t k')"
  by (induction t) (auto simp: add_issue_def)

lemma counters_le_refl [simp]: "counters_le t t"
  by (simp add: counters_le_def list_all2_same)

lemma counters_le_trans: "counters_le a b \<Longrightarrow> counters_le b c \<Longrightarrow> counters_le a c"
  unfolding counters_le_def
  by (rule list_all2_trans[where ?P1.0="\<lambda>a b. fst a = fst b \<and> snd a \<le> snd b"
        and ?P2.0="\<lambda>a b. fst a = fst b \<and> snd a \<le> snd b"]) auto

lemma counters_le_add_issue: "0 \<le> c \<Longrightarrow> counters_le t (add_issue t k c)"
  by (induction t) (auto simp: add_issue_def counters_le_def)

lemma counters_le_add_if_pos: "counters_le t (add_if_pos t k c)"
  by (simp add: add_if_pos_def counters_le_add_issue)

lemma counters_nonneg_add_issue: "0 \<le> c \<Longrightarrow> counters_nonneg t \<Longrightarrow> counters_nonneg (add_issue t k c)"
  by (induction t) (auto simp: add_issue_def counters_nonneg_def)

lemma length_keep_first: "length (keep_first key seen xs) \<le> length xs"
  by (induction xs arbitrary: seen) (auto simp: le_SucI)

lemma length_drop_duplicates: "length (drop_duplicates key xs) \<le> length xs"
  by (simp add: drop_duplicates_def length_keep_first)

lemma first_parse_DNaT [simp]: "first_parse env fmts DNaT = None"
  by (induction fmts) auto

lemma parse_dates_loop_rowwise:
  "parse_dates_loop env fmts col =
     map (\<lambda>rp. (fst rp, case snd rp of Some d \<Rightarrow> Some d
                         | None \<Rightarrow> first_parse env fmts (sale_date (fst rp)))) col"
proof (induction fmts arbitrary: col)
  case Nil
  have "map (\<lambda>rp. (fst rp, case snd rp of Some d \<Rightarrow> Some d
                         | None \<Rightarrow> first_parse env [] (sale_date (fst rp)))) col = col"
    by (intro map_idI) (auto split: option.splits simp: prod_eq_iff)
  then show ?case by simp
next
  case (Cons f fs)
  show ?case
  proof (cases "count_where date_mask col = 0")
    case True
    then have "\<forall>rp \<in> set col. \<not> date_mask rp"
      by (simp add: count_where_def filter_empty_conv)
    then have "map (\<lambda>rp. (fst rp, case snd rp of Some d \<Rightarrow> Some d
                         | None \<Rightarrow> first_parse env (f # fs) (sale_date (fst rp)))) col = col"
      by (intro map_idI) (auto simp: date_mask_def split: option.splits)
    with True show ?thesis by simp
  next
    case False
    then show ?thesis
      by (simp add: Cons.IH date_mask_def split: option.splits)
  qed
qed

lemma snd_remove_duplicates [simp]: "snd (remove_duplicates t df) = drop_duplicates order_id df"
  by (simp add: remove_duplicates_def Let_def)

lemma snd_clean_quantity [simp]: "snd (clean_quantity env t df) = map (repair_quantity env) df"
  by (simp add: clean_quantity_def repair_quantity_def Let_def)

lemma snd_clean_price [simp]: "snd (clean_price t df) = map repair_price df"
  by (simp add: clean_price_def repair_price_def Let_def)

lemma snd_clean_discount [simp]: "snd (clean_discount t df) = map repair_discount df"
  by (simp add: clean_discount_def repair_discount_def Let_def)

lemma snd_clean_dates [simp]: "snd (clean_dates env t df) = map (repair_date env) df"
  by (simp add: clean_dates_def repair_date_def Let_def parse_dates_loop_rowwise o_def)

lemma snd_normalize_region [simp]: "snd (normalize_region t df) = map repair_region df"
  by (simp add: normalize_region_def repair_region_def Let_def)

lemma snd_normalize_category [simp]: "snd (normalize_category t df) = map repair_category df"
  by (simp add: normalize_category_def repair_category_def Let_def)

lemma calculate_revenue_rowwise: "calculate_revenue df = map repair_revenue df"
  by (simp add: calculate_revenue_def repair_revenue_def)

lemma snd_handle_missing_values [simp]:
  "snd (handle_missing_values t df) = filter critical_present df"
  by (simp add: handle_missing_values_def Let_def)

lemma clean_chunk_steps:
  obtains t1 df1 t2 df2 t3 df3 t4 df4 t5 df5 t6 df6 t7 df7 t9 df9 where
    "remove_duplicates (add_issue t ''total_rows_processed'' (int (length df))) df = (t1, df1)"
    "clean_quantity env t1 df1 = (t2, df2)"
    "clean_price t2 df2 = (t3, df3)"
    "clean_discount t3 df3 = (t4, df4)"
    "clean_dates env t4 df4 = (t5, df5)"
    "normalize_region t5 df5 = (t6, df6)"
    "normalize_category t6 df6 = (t7, df7)"
    "handle_missing_values t7 (calculate_revenue df7) = (t9, df9)"
    "clean_chunk env t df = (add_issue t9 ''total_rows_cleaned'' (int (length df9)), df9)"
proof -
  obtain t1 df1 where s1:
    "remove_duplicates (add_issue t ''total_rows_processed'' (int (length df))) df = (t1, df1)"
    by fastforce
  obtain t2 df2 where s2: "clean_quantity env t1 df1 = (t2, df2)" by fastforce
  obtain t3 df3 where s3: "clean_price t2 df2 = (t3, df3)" by fastforce
  obtain t4 df4 where s4: "clean_discount t3 df3 = (t4, df4)" by fastforce
  obtain t5 df5 where s5: "clean_dates env t4 df4 = (t5, df5)" by fastforce
  obtain t6 df6 where s6: "normalize_region t5 df5 = (t6, df6)" by fastforce
  obtain t7 df7 where s7: "normalize_category t6 df6 = (t7, df7)" by fastforce
  obtain t9 df9 where s9: "handle_missing_values t7 (calculate_revenue df7) = (t9, df9)"
    by fastforce
  have "clean_chunk env t df = (add_issue t9 ''total_rows_cleaned'' (int (length df9)), df9)"
    unfolding clean_chunk_def by (simp add: s1 s2 s3 s4 s5 s6 s7 s9)
  with s1 s2 s3 s4 s5 s6 s7 s9 show thesis by (rule that)
qed

lemma clean_chunk_rows:
  "snd (clean_chunk env t df) =
     filter critical_present (map (repair_row env) (drop_duplicates order_id df))"
proof -
  obtain t1 df1 t2 df2 t3 df3 t4 df4 t5 df5 t6 df6 t7 df7 t9 df9 where s:
    "remove_duplicates (add_issue t ''total_rows_processed'' (int (length df))) df = (t1, df1)"
    "clean_quantity env t1 df1 = (t2, df2)"
    "clean_price t2 df2 = (t3, df3)"
    "clean_discount t3 df3 = (t4, df4)"
    "clean_dates env t4 df4 = (t5, df5)"
    "normalize_region t5 df5 = (t6, df6)"
    "normalize_category t6 df6 = (t7, df7)"
    "handle_missing_values t7 (calculate_revenue df7) = (t9, df9)"
    "clean_chunk env t df = (add_issue t9 ''total_rows_cleaned'' (int (length df9)), df9)"
    by (rule clean_chunk_steps)
  have "df1 = drop_duplicates order_id df"
    using snd_remove_duplicates[of "add_issue t ''total_rows_processed'' (int (length df))" df]
    by (simp add: s(1))
  moreover have "df2 = map (repair_quantity env) df1"
    using snd_clean_quantity[of env t1 df1] by (simp add: s(2))
  moreover have "df3 = map repair_price df2"
    using snd_clean_price[of t2 df2] by (simp add: s(3))
  moreover have "df4 = map repair_discount df3"
    using snd_clean_discount[of t3 df3] by (simp add: s(4))
  moreover have "df5 = map (repair_date env) df4"
    using snd_clean_dates[of env t4 df4] by (simp add: s(5))
  moreover have "df6 = map repair_region df5"
    using snd_normalize_region[of t5 df5] by (simp add: s(6))
  moreover have "df7 = map repair_category df6"
    using snd_normalize_category[of t6 df6] by (simp add: s(7))
  moreover have "df9 = filter critical_present (calculate_revenue df7)"
    using snd_handle_missing_values[of t7 "calculate_revenue df7"] by (simp add: s(8))
  ultimately have "df9 = filter critical_present (map (repair_row env) (drop_duplicates order_id df))"
    by (simp add: repair_row_def[abs_def] o_def calculate_revenue_rowwise)
  then show ?thesis by (simp add: s(9))
qed

lemma count_where_nonneg [simp]: "0 \<le> count_where P df"
  by (simp add: count_where_def)

lemma counters_nonneg_add_if_pos:
  "counters_nonneg t \<Longrightarrow> counters_nonneg (add_if_pos t k c)"
  by (simp add: add_if_pos_def counters_nonneg_add_issue)

lemma tally_step_refl [simp]: "tally_step t t"
  by (simp add: tally_step_def)

lemma tally_step_trans [trans]: "tally_step a b \<Longrightarrow> tally_step b c \<Longrightarrow> tally_step a c"
  by (auto simp: tally_step_def intro: counters_le_trans)

lemma tally_step_add_if_pos [simp]: "tally_step t (add_if_pos t k c)"
  by (simp add: tally_step_def counters_le_add_if_pos counters_nonneg_add_if_pos)

lemma tally_step_add_issue: "0 \<le> c \<Longrightarrow> tally_step t (add_issue t k c)"
  by (simp add: tally_step_def counters_le_add_issue counters_nonneg_add_issue)

lemma fst_steps [simp]:
  "tally_step t (fst (remove_duplicates t df))"
  "tally_step t (fst (clean_quantity env t df))"
  "tally_step t (fst (clean_price t df))"
  "tally_step t (fst (clean_discount t df))"
  "tally_step t (fst (clean_dates env t df))"
  "tally_step t (fst (normalize_region t df))"
  "tally_step t (fst (normalize_category t df))"
  "tally_step t (fst (handle_missing_values t df))"
  by (simp_all add: remove_duplicates_def clean_quantity_def clean_price_def clean_discount_def
      clean_dates_def normalize_region_def normalize_category_def handle_missing_values_def Let_def)

lemma tally_step_clean_chunk: "tally_step t (fst (clean_chunk env t df))"
proof -
  let ?t0 = "add_issue t ''total_rows_processed'' (int (length df))"
  obtain t1 df1 t2 df2 t3 df3 t4 df4 t5 df5 t6 df6 t7 df7 t9 df9 where s:
    "remove_duplicates ?t0 df = (t1, df1)"
    "clean_quantity env t1 df1 = (t2, df2)"
    "clean_price t2 df2 = (t3, df3)"
    "clean_discount t3 df3 = (t4, df4)"
    "clean_dates env t4 df4 = (t5, df5)"
    "normalize_region t5 df5 = (t6, df6)"
    "normalize_category t6 df6 = (t7, df7)"
    "handle_missing_values t7 (calculate_revenue df7) = (t9, df9)"
    "clean_chunk env t df = (add_issue t9 ''total_rows_cleaned'' (int (length df9)), df9)"
    by (rule clean_chunk_steps)
  have "tally_step t ?t0" by (simp add: tally_step_add_issue)
  also have "tally_step ?t0 t1" using fst_steps(1)[of ?t0 df] by (simp add: s(1))
  also have "tally_step t1 t2" using fst_steps(2)[of t1 env df1] by (simp add: s(2))
  also have "tally_step t2 t3" using fst_steps(3)[of t2 df2] by (simp add: s(3))
  also have "tally_step t3 t4" using fst_steps(4)[of t3 df3] by (simp add: s(4))
  also have "tally_step t4 t5" using fst_steps(5)[of t4 env df4] by (simp add: s(5))
  also have "tally_step t5 t6" using fst_steps(6)[of t5 df5] by (simp add: s(6))
  also have "tally_step t6 t7" using fst_steps(7)[of t6 df6] by (simp add: s(7))
  also have "tally_step t7 t9"
    using fst_steps(8)[of t7 "calculate_revenue df7"] by (simp add: s(8))
  also have "tally_step t9 (add_issue t9 ''total_rows_cleaned'' (int (length df9)))"
    by (simp add: tally_step_add_issue)
  finally show ?thesis by (simp add: s(9))
qed

lemma map_of_add_if_pos:
  "map_of (add_if_pos t k n) k' =
     (if k' = k \<and> 0 < n then map_option (\<lambda>v. v + n) (map_of t k) else map_of t k')"
  by (simp add: add_if_pos_def map_of_add_issue)


lemma fst_handle_missing_values:
  "fst (handle_missing_values t df) =
     add_if_pos t ''missing_values'' (int (length df) - int (length (filter critical_present df)))"
  by (simp add: handle_missing_values_def Let_def)

lemma steps_keep_other:
  "k \<noteq> ''duplicate_orders'' \<Longrightarrow> map_of (fst (remove_duplicates t df)) k = map_of t k"
  "k \<noteq> ''invalid_quantity'' \<Longrightarrow> map_of (fst (clean_quantity env t df)) k = map_of t k"
  "k \<noteq> ''invalid_price'' \<Longrightarrow> map_of (fst (clean_price t df)) k = map_of t k"
  "k \<noteq> ''invalid_discount'' \<Longrightarrow> map_of (fst (clean_discount t df)) k = map_of t k"
  "k \<noteq> ''invalid_date'' \<Longrightarrow> map_of (fst (clean_dates env t df)) k = map_of t k"
  "k \<noteq> ''normalized_regions'' \<Longrightarrow> map_of (fst (normalize_region t df)) k = map_of t k"
  "k \<noteq> ''normalized_categories'' \<Longrightarrow> map_of (fst (normalize_category t df)) k = map_of t k"
  "k \<noteq> ''missing_values'' \<Longrightarrow> map_of (fst (handle_missing_values t df)) k = map_of t k"
  by (simp_all add: remove_duplicates_def clean_quantity_def clean_price_def clean_discount_def
      clean_dates_def normalize_region_def normalize_category_def handle_missing_values_def
      Let_def map_of_add_if_pos)

lemma clean_chunk_totals:
  "map_of (fst (clean_chunk env t df)) ''total_rows_processed'' =
     map_option (\<lambda>v. v + int (length df)) (map_of t ''total_rows_processed'')"
  "map_of (fst (clean_chunk env t df)) ''total_rows_cleaned'' =
     map_option (\<lambda>v. v + int (length (snd (clean_chunk env t df)))) (map_of t ''total_rows_cleaned'')"
proof -
  let ?t0 = "add_issue t ''total_rows_processed'' (int (length df))"
  obtain t1 df1 t2 df2 t3 df3 t4 df4 t5 df5 t6 df6 t7 df7 t9 df9 where s:
    "remove_duplicates ?t0 df = (t1, df1)"
    "clean_quantity env t1 df1 = (t2, df2)"
    "clean_price t2 df2 = (t3, df3)"
    "clean_discount t3 df3 = (t4, df4)"
    "clean_dates env t4 df4 = (t5, df5)"
    "normalize_region t5 df5 = (t6, df6)"
    "normalize_category t6 df6 = (t7, df7)"
    "handle_missing_values t7 (calculate_revenue df7) = (t9, df9)"
    "clean_chunk env t df = (add_issue t9 ''total_rows_cleaned'' (int (length df9)), df9)"
    by (rule clean_chunk_steps)
  have keep: "map_of t9 k = map_of ?t0 k"
    if "k = ''total_rows_processed'' \<or> k = ''total_rows_cleaned''" for k
  proof -
    have "map_of t1 k = map_of ?t0 k" using steps_keep_other(1)[of k ?t0 df] that by (auto simp: s(1))
    moreover have "map_of t2 k = map_of t1 k" using steps_keep_other(2)[of k env t1 df1] that by (auto simp: s(2))
    moreover have "map_of t3 k = map_of t2 k" using steps_keep_other(3)[of k t2 df2] that by (auto simp: s(3))
    moreover have "map_of t4 k = map_of t3 k" using steps_keep_other(4)[of k t3 df3] that by (auto simp: s(4))
    moreover have "map_of t5 k = map_of t4 k" using steps_keep_other(5)[of k env t4 df4] that by (auto simp: s(5))
    moreover have "map_of t6 k = map_of t5 k" using steps_keep_other(6)[of k t5 df5] that by (auto simp: s(6))
    moreover have "map_of t7 k = map_of t6 k" using steps_keep_other(7)[of k t6 df6] that by (auto simp: s(7))
    moreover have "map_of t9 k = map_of t7 k"
      using steps_keep_other(8)[of k t7 "calculate_revenue df7"] that by (auto simp: s(8))
    ultimately show ?thesis by simp
  qed
  show "map_of (fst (clean_chunk env t df)) ''total_rows_processed'' =
     map_option (\<lambda>v. v + int (length df)) (map_of t ''total_rows_processed'')"
    by (simp add: s(9) map_of_add_issue keep)
  show "map_of (fst (clean_chunk env t df)) ''total_rows_cleaned'' =
     map_option (\<lambda>v. v + int (length (snd (clean_chunk env t df)))) (map_of t ''total_rows_cleaned'')"
    by (simp add: s(9) map_of_add_issue keep)
qed

lemma length_clean_chunk: "length (snd (clean_chunk env t df)) \<le> length df"
proof -
  have "length (snd (clean_chunk env t df)) \<le> length (drop_duplicates order_id df)"
    unfolding clean_chunk_rows
    by (rule order_trans[OF length_filter_le]) simp
  then show ?thesis using length_drop_duplicates[of order_id df] by linarith
qed

lemma process_chunks_append:
  "process_chunks env st (xs @ ys) = process_chunks env (process_chunks env st xs) ys"
  by (induction xs arbitrary: st) (simp_all add: split_beta Let_def)

lemma totals_ok_clean_chunk: "totals_ok t \<Longrightarrow> totals_ok (fst (clean_chunk env t df))"
  using length_clean_chunk[of env t df]
  by (auto simp: totals_ok_def clean_chunk_totals)

lemma process_chunks_tally:
  "tally_step (fst st) (fst (process_chunks env st chunks))
   \<and> (totals_ok (fst st) \<longrightarrow> totals_ok (fst (process_chunks env st chunks)))"
proof (induction chunks arbitrary: st)
  case Nil
  show ?case by simp
next
  case (Cons chunk rest)
  obtain t' cleaned where c: "clean_chunk env (fst st) chunk = (t', cleaned)" by fastforce
  let ?st' = "(t', if 0 < length cleaned then process_chunk (snd st) cleaned else snd st)"
  have step: "process_chunks env st (chunk # rest) = process_chunks env ?st' rest"
    by (simp add: c)
  have "tally_step (fst st) t'" using tally_step_clean_chunk[of "fst st" env chunk] by (simp add: c)
  moreover have "totals_ok (fst st) \<longrightarrow> totals_ok t'"
    using totals_ok_clean_chunk[of "fst st" env chunk] by (simp add: c)
  ultimately show ?case
    unfolding step using Cons.IH[of ?st'] by (auto intro: tally_step_trans)
qed

lemma init_ok: "counters_nonneg init_issues" "totals_ok init_issues"
  by (simp_all add: counters_nonneg_def totals_ok_def init_issues_def)

text \<open>
  Claim C5. For every sequence of batches of a run, started on the initial tally: after
  the batches every counter is non-negative and \<open>total_rows_cleaned\<close> is at most
  \<open>total_rows_processed\<close>; processing further batches decreases no counter; and one
  call of \<open>clean_chunk\<close>, on any tally, decreases no counter. (Each statement of
  \<open>clean_chunk\<close> changes the tally by \<open>add_issue\<close> with a count that is not negative,
  lemmas \<open>fst_steps\<close> and \<open>tally_step_add_issue\<close>.)
\<close>

theorem tally_counters_monotone:
  "counters_nonneg (fst (run_pipeline env chunks))
   \<and> (\<exists>p c. map_of (fst (run_pipeline env chunks)) ''total_rows_processed'' = Some p
          \<and> map_of (fst (run_pipeline env chunks)) ''total_rows_cleaned'' = Some c
          \<and> c \<le> p)
   \<and> counters_le (fst (run_pipeline env chunks)) (fst (run_pipeline env (chunks @ later)))
   \<and> counters_le t (fst (clean_chunk env t df))"
proof -
  have a: "tally_step init_issues (fst (run_pipeline env chunks))"
    and b: "totals_ok (fst (run_pipeline env chunks))"
    using process_chunks_tally[of "(init_issues, init_aggregator)" env chunks] init_ok
    by (simp_all add: run_pipeline_def)
  have c: "tally_step (fst (run_pipeline env chunks)) (fst (run_pipeline env (chunks @ later)))"
    using process_chunks_tally[of "run_pipeline env chunks" env later]
    by (simp add: run_pipeline_def process_chunks_append)
  show ?thesis
    using a b c init_ok(1) tally_step_clean_chunk[of t env df]
    by (simp add: tally_step_def totals_ok_def)
qed

text \<open>
  Claim C6. The cleaned batch depends on the input batch only: two calls of
  \<open>clean_chunk\<close> on the same batch with different tallies return the same rows.
\<close>

theorem clean_chunk_ignores_tally:
  "snd (clean_chunk env t1 df) = snd (clean_chunk env t2 df)"
  by (simp add: clean_chunk_rows)


section \<open>Revenue and the critical fields\<close>

lemma repair_row_fields:
  "order_id (repair_row env r) = order_id r"
  "product_name (repair_row env r) = product_name r"
  "quantity (repair_row env r) = quantity (repair_quantity env r)"
  "unit_price (repair_row env r) = unit_price (repair_price r)"
  "discount_percent (repair_row env r) = discount_percent (repair_discount r)"
  "sale_date (repair_row env r) = dcell_of (first_parse env DATE_FORMATS (sale_date r))"
  "region (repair_row env r) = fillna (normalized REGION_MAPPING (region r)) (region r)"
  "category (repair_row env r) = fillna (normalized CATEGORY_MAPPING (category r)) (category r)"
  by (simp_all add: repair_row_def repair_revenue_def repair_category_def repair_region_def
      repair_date_def repair_discount_def repair_price_def repair_quantity_def Let_def
      price_invalid_def discount_invalid_def quantity_invalid_def)

lemma revenue_of_cong:
  "quantity r = quantity r' \<Longrightarrow> unit_price r = unit_price r' \<Longrightarrow>
   discount_percent r = discount_percent r' \<Longrightarrow> revenue_of r = revenue_of r'"
  by (simp add: revenue_of_def)

lemma revenue_repair_row: "revenue (repair_row env r) = revenue_of (repair_row env r)"
proof -
  let ?r7 = "repair_category (repair_region (repair_date env
       (repair_discount (repair_price (repair_quantity env r)))))"
  have "repair_row env r = ?r7\<lparr>revenue := revenue_of ?r7\<rparr>"
    by (simp add: repair_row_def repair_revenue_def)
  moreover have "revenue_of (?r7\<lparr>revenue := revenue_of ?r7\<rparr>) = revenue_of ?r7"
    by (rule revenue_of_cong) simp_all
  ultimately show ?thesis by simp
qed

lemma quantity_repaired:
  "quantity (repair_quantity env r) =
     (case coerce_numeric env (quantity r) of
        None \<Rightarrow> QNaN
      | Some q \<Rightarrow> if MIN_QUANTITY \<le> q \<and> q \<le> MAX_QUANTITY then QNum q else QNaN)"
  by (auto simp: repair_quantity_def quantity_invalid_def out_of_range_def Let_def
      split: option.splits)

lemma price_repaired:
  "unit_price (repair_price r) =
     (case unit_price r of
        None \<Rightarrow> None
      | Some p \<Rightarrow> if MIN_PRICE \<le> p \<and> p \<le> MAX_PRICE then Some p else None)"
  by (auto simp: repair_price_def price_invalid_def out_of_range_def split: option.splits)


lemma discount_repaired_Some:
  "\<exists>d. discount_percent (repair_discount r) = Some d \<and> MIN_DISCOUNT \<le> d \<and> d \<le> MAX_DISCOUNT"
  by (auto simp: repair_discount_def discount_invalid_def out_of_range_def MIN_DISCOUNT_def
      MAX_DISCOUNT_def split: option.splits)

lemma critical_present_repair_row:
  "critical_present (repair_row env r) =
     (order_id r \<noteq> None
      \<and> (\<exists>q. coerce_numeric env (quantity r) = Some q \<and> MIN_QUANTITY \<le> q \<and> q \<le> MAX_QUANTITY)
      \<and> (\<exists>p. unit_price r = Some p \<and> MIN_PRICE \<le> p \<and> p \<le> MAX_PRICE)
      \<and> first_parse env DATE_FORMATS (sale_date r) \<noteq> None)"
proof -
  have d: "dcell_of x \<noteq> DNaT \<longleftrightarrow> x \<noteq> None" for x by (cases x) simp_all
  show ?thesis
    unfolding critical_present_def repair_row_fields quantity_repaired price_repaired d
    by (auto split: option.splits)
qed


lemma clean_order_a: "snd (clean_chunk example_pandas init_issues [order_a]) = [cleaned_a]"
  by code_simp




section \<open>The caller's frame\<close>

lemma returns_new_fresh:
  assumes "take (length h) h1 = h" "d < length h1" "step t (h1 ! d) = (t', f)"
  shows "returns_new step h1 t d = (h1 @ [f], t', length h1)"
    and "fresh_in h (h1 @ [f]) (length h1)"
proof -
  show "returns_new step h1 t d = (h1 @ [f], t', length h1)"
    by (simp add: returns_new_def assms(3))
  have "length (take (length h) h1) = length h" using assms(1) by simp
  then have "length h \<le> length h1" by simp
  then show "fresh_in h (h1 @ [f]) (length h1)"
    using assms(1) by (simp add: fresh_in_def)
qed

lemma writes_in_place_fresh:
  assumes "fresh_in h h1 d" "step t (h1 ! d) = (t', f)"
  shows "writes_in_place step h1 t d = (h1[d := f], t', d)"
    and "fresh_in h (h1[d := f]) d"
    and "h1[d := f] ! d = f"
proof -
  show "writes_in_place step h1 t d = (h1[d := f], t', d)"
    by (simp add: writes_in_place_def assms(2))
  show "fresh_in h (h1[d := f]) d"
    using assms(1) by (simp add: fresh_in_def)
  show "h1[d := f] ! d = f"
    using assms(1) by (simp add: fresh_in_def)
qed

text \<open>
  Claim C10. \<open>clean_chunk\<close> leaves the caller's frame as it was: for a valid reference
  \<open>df\<close>, every frame of the store before the call, the input among them, has the same
  rows after it; the result is a new frame object, and it holds what the cleaner computes
  from the input's rows.
\<close>

theorem clean_chunk_store_frame:
  assumes "df < length h"
  shows "case clean_chunk_store env h t df of
           (h', t', out) \<Rightarrow>
             take (length h) h' = h \<and> h' ! df = h ! df \<and> length h \<le> out \<and> out < length h'
             \<and> (t', h' ! out) = clean_chunk env t (h ! df)"
proof -
  let ?t0 = "add_issue t ''total_rows_processed'' (int (length (h ! df)))"
  obtain t1 df1 t2 df2 t3 df3 t4 df4 t5 df5 t6 df6 t7 df7 t9 df9 where s:
    "remove_duplicates ?t0 (h ! df) = (t1, df1)"
    "clean_quantity env t1 df1 = (t2, df2)"
    "clean_price t2 df2 = (t3, df3)"
    "clean_discount t3 df3 = (t4, df4)"
    "clean_dates env t4 df4 = (t5, df5)"
    "normalize_region t5 df5 = (t6, df6)"
    "normalize_category t6 df6 = (t7, df7)"
    "handle_missing_values t7 (calculate_revenue df7) = (t9, df9)"
    "clean_chunk env t (h ! df) = (add_issue t9 ''total_rows_cleaned'' (int (length df9)), df9)"
    by (rule clean_chunk_steps)
  define h0 where "h0 = h @ [h ! df]"
  have c0: "returns_new (\<lambda>t f. (t, f)) h ?t0 df = (h0, ?t0, length h)"
    and f0: "fresh_in h h0 (length h)"
    unfolding h0_def
    using returns_new_fresh[of h h df "\<lambda>t f. (t, f)" ?t0 ?t0 "h ! df"] assms by simp_all
  have v0: "h0 ! length h = h ! df" by (simp add: h0_def)
  have old0: "take (length h) h0 = h" "length h < length h0" by (simp_all add: h0_def)
  define h1 where "h1 = h0 @ [df1]"
  define d where "d = length h0"
  have c1: "returns_new remove_duplicates h0 ?t0 (length h) = (h1, t1, d)"
    and f1: "fresh_in h h1 d"
    unfolding h1_def d_def
    using returns_new_fresh[of h h0 "length h" remove_duplicates ?t0 t1 df1] s(1) old0 v0
    by simp_all
  have v1: "h1 ! d = df1" by (simp add: h1_def d_def)
  define h2 where "h2 = h1[d := df2]"
  have c2: "writes_in_place (clean_quantity env) h1 t1 d = (h2, t2, d)"
    and f2: "fresh_in h h2 d" and v2: "h2 ! d = df2"
    unfolding h2_def
    using writes_in_place_fresh[OF f1, of "clean_quantity env" t1 t2 df2] s(2) v1 by simp_all
  define h3 where "h3 = h2[d := df3]"
  have c3: "writes_in_place clean_price h2 t2 d = (h3, t3, d)"
    and f3: "fresh_in h h3 d" and v3: "h3 ! d = df3"
    unfolding h3_def
    using writes_in_place_fresh[OF f2, of clean_price t2 t3 df3] s(3) v2 by simp_all
  define h4 where "h4 = h3[d := df4]"
  have c4: "writes_in_place clean_discount h3 t3 d = (h4, t4, d)"
    and f4: "fresh_in h h4 d" and v4: "h4 ! d = df4"
    unfolding h4_def
    using writes_in_place_fresh[OF f3, of clean_discount t3 t4 df4] s(4) v3 by simp_all
  define h5 where "h5 = h4[d := df5]"
  have c5: "writes_in_place (clean_dates env) h4 t4 d = (h5, t5, d)"
    and f5: "fresh_in h h5 d" and v5: "h5 ! d = df5"
    unfolding h5_def
    using writes_in_place_fresh[OF f4, of "clean_dates env" t4 t5 df5] s(5) v4 by simp_all
  define h6 where "h6 = h5[d := df6]"
  have c6: "writes_in_place normalize_region h5 t5 d = (h6, t6, d)"
    and f6: "fresh_in h h6 d" and v6: "h6 ! d = df6"
    unfolding h6_def
    using writes_in_place_fresh[OF f5, of normalize_region t5 t6 df6] s(6) v5 by simp_all
  define h7 where "h7 = h6[d := df7]"
  have c7: "writes_in_place normalize_category h6 t6 d = (h7, t7, d)"
    and f7: "fresh_in h h7 d" and v7: "h7 ! d = df7"
    unfolding h7_def
    using writes_in_place_fresh[OF f6, of normalize_category t6 t7 df7] s(7) v6 by simp_all
  define h8 where "h8 = h7[d := calculate_revenue df7]"
  have c8: "writes_in_place (\<lambda>t f. (t, calculate_revenue f)) h7 t7 d = (h8, t7, d)"
    and f8: "fresh_in h h8 d" and v8: "h8 ! d = calculate_revenue df7"
    unfolding h8_def
    using writes_in_place_fresh[OF f7, of "\<lambda>t f. (t, calculate_revenue f)" t7 t7
        "calculate_revenue df7"] v7
    by simp_all
  define h9 where "h9 = h8 @ [df9]"
  have c9: "returns_new handle_missing_values h8 t7 d = (h9, t9, length h8)"
    and f9: "fresh_in h h9 (length h8)"
    unfolding h9_def
    using returns_new_fresh[of h h8 d handle_missing_values t7 t9 df9] f8 s(8) v8
    by (simp_all add: fresh_in_def)
  have v9: "h9 ! length h8 = df9" by (simp add: h9_def)
  have res: "clean_chunk_store env h t df =
      (h9, add_issue t9 ''total_rows_cleaned'' (int (length df9)), length h8)"
    unfolding clean_chunk_store_def
    by (simp only: Let_def c0 c1 c2 c3 c4 c5 c6 c7 c8 c9 prod.case v9)
  have old: "take (length h) h9 = h" using f9 by (simp add: fresh_in_def)
  have "h9 ! df = h ! df"
    using assms by (metis old nth_take)
  with old f9 v9 show ?thesis
    unfolding res prod.case s(9) by (simp add: fresh_in_def)
qed

theorem clean_chunk_store_frame_witness:
  "0 < length [[order_a]]
   \<and> (case clean_chunk_store example_pandas [[order_a]] init_issues 0 of
        (h', t', out) \<Rightarrow> h' ! 0 = [order_a] \<and> 1 \<le> out \<and> h' ! out = [cleaned_a])"
proof -
  have "snd (clean_chunk example_pandas init_issues ([[order_a]] ! 0)) = [cleaned_a]"
    by (simp add: clean_order_a)
  then show ?thesis
    using clean_chunk_store_frame[of 0 "[[order_a]]" example_pandas init_issues]
    by (auto simp: split_beta dest: arg_cong[where f = snd])
qed

section \<open>Duplicate orders\<close>









section \<open>Cleaning a cleaned batch\<close>

lemma region_values_fixed:
  "list_all (\<lambda>kv. map_of REGION_MAPPING (strip (lower (snd kv))) = Some (snd kv)) REGION_MAPPING"
  by code_simp

lemma category_values_fixed:
  "list_all (\<lambda>kv. map_of CATEGORY_MAPPING (strip (lower (snd kv))) = Some (snd kv)) CATEGORY_MAPPING"
  by code_simp

lemma normalized_fixed:
  assumes "list_all (\<lambda>kv. map_of m (strip (lower (snd kv))) = Some (snd kv)) m"
  shows "fillna (normalized m (fillna (normalized m c) c)) (fillna (normalized m c) c)
         = fillna (normalized m c) c"
proof (cases "normalized m c")
  case None
  then show ?thesis by (simp add: fillna_def)
next
  case (Some v)
  then obtain s where "c = Some s" "map_of m (strip (lower s)) = Some v"
    by (auto simp: normalized_def split: option.splits)
  then have "(strip (lower s), v) \<in> set m" by (auto dest: map_of_SomeD)
  with assms have "map_of m (strip (lower v)) = Some v"
    by (auto simp: list_all_iff)
  then show ?thesis using Some by (simp add: fillna_def normalized_def)
qed

lemma first_parse_DDate: "fmts \<noteq> [] \<Longrightarrow> first_parse env fmts (DDate d) = Some d"
  by (cases fmts) simp_all

lemma cleaned_row_repair_row:
  assumes "critical_present (repair_row env r)"
  shows "cleaned_row (repair_row env r)"
proof -
  from assms have cp: "order_id r \<noteq> None"
    "\<exists>q. coerce_numeric env (quantity r) = Some q \<and> MIN_QUANTITY \<le> q \<and> q \<le> MAX_QUANTITY"
    "\<exists>p. unit_price r = Some p \<and> MIN_PRICE \<le> p \<and> p \<le> MAX_PRICE"
    "first_parse env DATE_FORMATS (sale_date r) \<noteq> None"
    by (simp_all add: critical_present_repair_row)
  have 1: "order_id (repair_row env r) \<noteq> None" using cp(1) by (simp add: repair_row_fields)
  have 2: "\<exists>q. quantity (repair_row env r) = QNum q \<and> MIN_QUANTITY \<le> q \<and> q \<le> MAX_QUANTITY"
    using cp(2) by (auto simp: repair_row_fields quantity_repaired)
  have 3: "\<exists>p. unit_price (repair_row env r) = Some p \<and> MIN_PRICE \<le> p \<and> p \<le> MAX_PRICE"
    using cp(3) by (auto simp: repair_row_fields price_repaired)
  have 4: "\<exists>d. discount_percent (repair_row env r) = Some d \<and> MIN_DISCOUNT \<le> d \<and> d \<le> MAX_DISCOUNT"
    using discount_repaired_Some[of r] by (simp add: repair_row_fields)
  have 5: "\<exists>d. sale_date (repair_row env r) = DDate d"
    using cp(4) by (auto simp: repair_row_fields)
  have 6: "fillna (normalized REGION_MAPPING (region (repair_row env r))) (region (repair_row env r))
      = region (repair_row env r)"
    unfolding repair_row_fields by (rule normalized_fixed[OF region_values_fixed])
  have 7: "fillna (normalized CATEGORY_MAPPING (category (repair_row env r))) (category (repair_row env r))
      = category (repair_row env r)"
    unfolding repair_row_fields by (rule normalized_fixed[OF category_values_fixed])
  have 8: "revenue (repair_row env r) = revenue_of (repair_row env r)"
    by (rule revenue_repair_row)
  from 1 2 3 4 5 6 7 8 show ?thesis unfolding cleaned_row_def by blast
qed

lemma keep_first_unseen: "x \<in> set (keep_first key seen xs) \<Longrightarrow> key x \<notin> set seen"
  by (induction xs arbitrary: seen) (fastforce split: if_splits)+

lemma keep_first_distinct: "distinct (map key (keep_first key seen xs))"
  by (induction xs arbitrary: seen) (auto dest: keep_first_unseen)

lemma keep_first_id:
  "distinct (map key xs) \<Longrightarrow> set (map key xs) \<inter> set seen = {} \<Longrightarrow> keep_first key seen xs = xs"
  by (induction xs arbitrary: seen) auto

lemma distinct_clean_chunk: "distinct (map order_id (snd (clean_chunk env t df)))"
proof -
  have "distinct (map order_id (drop_duplicates order_id df))"
    using keep_first_distinct[of order_id "[]" df] by (simp add: drop_duplicates_def)
  then have "distinct (map order_id (map (repair_row env) (drop_duplicates order_id df)))"
    by (simp add: o_def repair_row_fields)
  then show ?thesis
    unfolding clean_chunk_rows by (rule distinct_map_filter)
qed

lemma cleaned_rows_clean_chunk: "\<forall>r \<in> set (snd (clean_chunk env t df)). cleaned_row r"
  by (auto simp: clean_chunk_rows cleaned_row_repair_row)

lemma add_if_pos_0 [simp]: "add_if_pos t k 0 = t"
  by (simp add: add_if_pos_def)

lemma count_where_0: "(\<forall>r \<in> set df. \<not> P r) \<Longrightarrow> count_where P df = 0"
  by (simp add: count_where_def filter_empty_conv[THEN iffD2])

lemma repair_cleaned:
  assumes "cleaned_row r"
  shows "repair_quantity env r = r" "\<not> quantity_invalid r"
    "repair_price r = r" "\<not> price_invalid r"
    "repair_discount r = r" "\<not> discount_invalid r"
    "repair_date env r = r" "first_parse env DATE_FORMATS (sale_date r) \<noteq> None"
    "repair_region r = r" "\<not> region_changed r"
    "repair_category r = r" "\<not> category_changed r"
    "repair_revenue r = r" "critical_present r"
proof -
  from assms obtain q p d dt where f: "order_id r \<noteq> None" "quantity r = QNum q"
    "MIN_QUANTITY \<le> q" "q \<le> MAX_QUANTITY" "unit_price r = Some p" "MIN_PRICE \<le> p" "p \<le> MAX_PRICE"
    "discount_percent r = Some d" "MIN_DISCOUNT \<le> d" "d \<le> MAX_DISCOUNT" "sale_date r = DDate dt"
    and g: "fillna (normalized REGION_MAPPING (region r)) (region r) = region r"
      "fillna (normalized CATEGORY_MAPPING (category r)) (category r) = category r"
      "revenue r = revenue_of r"
    unfolding cleaned_row_def by blast
  show "\<not> quantity_invalid r" using f by (simp add: quantity_invalid_def out_of_range_def)
  then show "repair_quantity env r = r"
    using f by (simp add: repair_quantity_def Let_def quantity_invalid_def out_of_range_def)
  show "\<not> price_invalid r" using f by (simp add: price_invalid_def out_of_range_def)
  then show "repair_price r = r" by (simp add: repair_price_def)
  show "\<not> discount_invalid r" using f by (simp add: discount_invalid_def out_of_range_def)
  then show "repair_discount r = r" by (simp add: repair_discount_def)
  have fp: "first_parse env DATE_FORMATS (sale_date r) = Some dt"
    using f(11) by (simp add: first_parse_DDate DATE_FORMATS_def)
  then show "first_parse env DATE_FORMATS (sale_date r) \<noteq> None" by simp
  show "repair_date env r = r" using fp f(11) by (simp add: repair_date_def)
  show "repair_region r = r" using g(1) by (simp add: repair_region_def)
  show "\<not> region_changed r"
    using g(1) by (auto simp: region_changed_def fillna_def split: option.splits)
  show "repair_category r = r" using g(2) by (simp add: repair_category_def)
  show "\<not> category_changed r"
    using g(2) by (auto simp: category_changed_def fillna_def split: option.splits)
  show "repair_revenue r = r" using g(3) by (simp add: repair_revenue_def)
  show "critical_present r" using f by (simp add: critical_present_def)
qed

lemma steps_on_cleaned:
  assumes "\<forall>r \<in> set df. cleaned_row r"
  shows "clean_quantity env t df = (t, df)"
    "clean_price t df = (t, df)"
    "clean_discount t df = (t, df)"
    "clean_dates env t df = (t, df)"
    "normalize_region t df = (t, df)"
    "normalize_category t df = (t, df)"
    "calculate_revenue df = df"
    "handle_missing_values t df = (t, df)"
proof -
  have m: "map f df = df" if "\<forall>r \<in> set df. f r = r" for f :: "row \<Rightarrow> row"
    using that by (simp add: map_idI)
  have q1: "map (\<lambda>r. r\<lparr>quantity := qcell_of (coerce_numeric env (quantity r))\<rparr>) df = df"
    using assms by (intro m) (auto simp: cleaned_row_def)
  show "clean_quantity env t df = (t, df)"
    unfolding clean_quantity_def Let_def q1
    using assms by (simp add: count_where_0 repair_cleaned(2) map_idI)
  show "clean_price t df = (t, df)"
    unfolding clean_price_def Let_def
    using assms by (simp add: count_where_0 repair_cleaned(4) map_idI)
  show "clean_discount t df = (t, df)"
    unfolding clean_discount_def Let_def
    using assms by (simp add: count_where_0 repair_cleaned(6) map_idI)
  have "snd (clean_dates env t df) = df"
    using assms by (simp add: repair_cleaned(7) map_idI)
  moreover have "fst (clean_dates env t df) = t"
  proof -
    have "count_where (\<lambda>rp. snd rp = None)
        (map (\<lambda>r. (r, first_parse env DATE_FORMATS (sale_date r))) df) = 0"
      using assms repair_cleaned(8)[of _ env] by (intro count_where_0) fastforce
    then show ?thesis
      unfolding clean_dates_def Let_def parse_dates_loop_rowwise fst_conv
      by (simp add: o_def)
  qed
  ultimately show "clean_dates env t df = (t, df)" by (simp add: prod_eq_iff)
  show "normalize_region t df = (t, df)"
    unfolding normalize_region_def Let_def
    using assms repair_cleaned(9) by (simp add: count_where_0 repair_cleaned(10) map_idI repair_region_def)
  show "normalize_category t df = (t, df)"
    unfolding normalize_category_def Let_def
    using assms repair_cleaned(11) by (simp add: count_where_0 repair_cleaned(12) map_idI repair_category_def)
  show c: "calculate_revenue df = df"
    using assms by (simp add: calculate_revenue_rowwise repair_cleaned(13) map_idI)
  have "filter critical_present df = df"
    using assms by (simp add: repair_cleaned(14))
  then show "handle_missing_values t df = (t, df)"
    by (simp add: handle_missing_values_def Let_def)
qed

lemma clean_chunk_on_cleaned:
  assumes "\<forall>r \<in> set df. cleaned_row r" "distinct (map order_id df)"
  shows "clean_chunk env t df =
     (add_issue (add_issue t ''total_rows_processed'' (int (length df)))
        ''total_rows_cleaned'' (int (length df)), df)"
proof -
  have "drop_duplicates order_id df = df"
    using assms(2) by (simp add: drop_duplicates_def keep_first_id)
  then have "remove_duplicates t' df = (t', df)" for t'
    by (simp add: remove_duplicates_def Let_def)
  then show ?thesis
    unfolding clean_chunk_def by (simp add: steps_on_cleaned[OF assms(1)])
qed

text \<open>
  Claim C2, amended. Cleaning a batch that is the result of cleaning returns it
  unchanged, and changes no counter of the tally but the two row totals:
  \<open>total_rows_processed\<close> and \<open>total_rows_cleaned\<close> each grow by the number of rows of
  the batch.
\<close>

theorem clean_chunk_idempotent:
  "clean_chunk env t' (snd (clean_chunk env t df)) =
     (add_issue (add_issue t' ''total_rows_processed'' (int (length (snd (clean_chunk env t df)))))
        ''total_rows_cleaned'' (int (length (snd (clean_chunk env t df)))),
      snd (clean_chunk env t df))"
  by (rule clean_chunk_on_cleaned[OF cleaned_rows_clean_chunk distinct_clean_chunk])

text \<open>
  The claim as stated fails on every cleaned batch that has a row: cleaning the cleaned
  batch \<open>[cleaned_a]\<close> moves \<open>total_rows_processed\<close> from 0 to 1.
\<close>

theorem clean_chunk_idempotent_counterexample:
  "snd (clean_chunk example_pandas init_issues [order_a]) = [cleaned_a]
   \<and> map_of init_issues ''total_rows_processed'' = Some 0
   \<and> map_of (fst (clean_chunk example_pandas init_issues [cleaned_a])) ''total_rows_processed''
       = Some 1"
proof -
  have "map_of init_issues ''total_rows_processed'' = Some 0"
    by (simp add: init_issues_def)
  then show ?thesis
    using clean_order_a by (simp add: clean_chunk_totals)
qed

section \<open>Re-chunking\<close>

lemma concat_chunked: "0 < n \<Longrightarrow> concat (chunked n rows) = rows"
  by (induction n rows rule: chunked.induct) simp_all

lemma read_chunks_partition: "read_chunks n rows = Inr chunks \<Longrightarrow> concat chunks = rows"
  by (auto simp: read_chunks_def concat_chunked split: if_splits)

lemma snd_clean_chunk: "snd (clean_chunk env t df) = clean_rows env df"
  by (simp add: clean_chunk_rows clean_rows_def)

lemma snd_process_chunks:
  "snd (process_chunks env st bs) =
     foldl process_chunk (snd st) (filter (\<lambda>c. c \<noteq> []) (map (clean_rows env) bs))"
proof (induction bs arbitrary: st)
  case Nil
  show ?case by simp
next
  case (Cons b bs)
  obtain t' c where c: "clean_chunk env (fst st) b = (t', c)" by fastforce
  then have c': "c = clean_rows env b" using snd_clean_chunk[of env "fst st" b] by simp
  show ?case
    by (simp add: c Cons.IH) (simp add: c')
qed




lemma map_filter_append: "List.map_filter f (xs @ ys) = List.map_filter f xs @ List.map_filter f ys"
  by (simp add: List.map_filter_def)





lemma col_sum_append [simp]: "col_sum (xs @ ys) = col_sum xs + col_sum ys"
  by (simp add: col_sum_def map_filter_append)

lemma col_sum_Nil [simp]: "col_sum [] = 0"
  by (simp add: col_sum_def List.map_filter_simps)

lemma set_map_filter: "set (List.map_filter f xs) = {k. \<exists>x \<in> set xs. f x = Some k}"
  by (force simp: List.map_filter_def)




lemma groupby_keys:
  "map fst (groupby key df) = sort (remdups (List.map_filter key df))"
  "distinct (map fst (groupby key df))"
  "set (map fst (groupby key df)) = {k. \<exists>x \<in> set df. key x = Some k}"
  by (simp_all add: groupby_def o_def set_map_filter)
















lemma product_sum_append [simp]:
  "product_sum col (xs @ ys) p = product_sum col xs p + product_sum col ys p"
  by (simp add: product_sum_def)















lemma run_pipeline_aggregator:
  "snd (run_pipeline env chunks) =
     foldl process_chunk init_aggregator (filter (\<lambda>c. c \<noteq> []) (map (clean_rows env) chunks))"
  by (simp add: run_pipeline_def snd_process_chunks)















lemma more_cleaned_examples:
  "clean_rows example_pandas [order_a, order_b] = [cleaned_a]"
  "clean_rows example_pandas [order_a] = [cleaned_a]"
  "clean_rows example_pandas [order_b] = [cleaned_b]"
  "clean_rows example_pandas [order_a, order_e] = [cleaned_a, cleaned_e]"
  "clean_rows example_pandas [order_e] = [cleaned_e]"
  by code_simp+

lemma more_product_dict_examples:
  "product_revenue (process_chunk init_aggregator [cleaned_a]) = [(''Widget'', 180)]"
  "product_revenue (process_chunk (process_chunk init_aggregator [cleaned_a]) [cleaned_b]) =
     [(''Widget'', 180), (''Gadget'', 180)]"
  "product_revenue (process_chunk init_aggregator [cleaned_a, cleaned_e]) =
     [(''Gadget'', 180), (''Widget'', 180)]"
  "product_units (process_chunk init_aggregator [cleaned_a, cleaned_e]) =
     [(''Gadget'', 10), (''Widget'', 10)]"
  "product_revenue (process_chunk (process_chunk init_aggregator [cleaned_a]) [cleaned_e]) =
     [(''Widget'', 180), (''Gadget'', 180)]"
  "product_units (process_chunk (process_chunk init_aggregator [cleaned_a]) [cleaned_e]) =
     [(''Widget'', 10), (''Gadget'', 10)]"
  by code_simp+

text \<open>
  Why the amended claim asks for distinct order ids: duplicates are only detected within
  a batch, so a repeated \<open>order_id\<close> is dropped in one chunking and kept in another.
\<close>

lemma rechunking_duplicate_example:
  "product_revenue (snd (run_pipeline example_pandas (chunked 2 [order_a, order_b]))) =
     [(''Widget'', 180)]
   \<and> product_revenue (snd (run_pipeline example_pandas (chunked 1 [order_a, order_b]))) =
     [(''Widget'', 180), (''Gadget'', 180)]"
  unfolding run_pipeline_aggregator
  by (simp add: more_cleaned_examples more_product_dict_examples)

lemma top_products_of_dicts:
  "get_top_products \<lparr>monthly_sales = ms, product_revenue = [(''Gadget'', 180), (''Widget'', 180)],
       product_units = [(''Gadget'', 10), (''Widget'', 10)], all_records = rs\<rparr> 1 =
     Inr [\<lparr>name = ''Gadget'', revenue_total = 180, total_units_sold = 10, rank_by = ''revenue''\<rparr>]"
  "get_top_products \<lparr>monthly_sales = ms, product_revenue = [(''Widget'', 180), (''Gadget'', 180)],
       product_units = [(''Widget'', 10), (''Gadget'', 10)], all_records = rs\<rparr> 1 =
     Inr [\<lparr>name = ''Widget'', revenue_total = 180, total_units_sold = 10, rank_by = ''revenue''\<rparr>]"
  by (simp_all add: get_top_products_def nlargest_def List.map_filter_simps drop_duplicates_def
      round2_def round_half_even_def trunc_def Let_def)

lemma aggregator_fields:
  "agg = \<lparr>monthly_sales = monthly_sales agg, product_revenue = product_revenue agg,
      product_units = product_units agg, all_records = all_records agg\<rparr>"
  by simp

text \<open>
  Why the amended claim asks for products without ties: products of equal revenue are
  ranked in the insertion order of the product dict, which depends on the chunking.
\<close>

lemma rechunking_tie_example:
  "distinct (map order_id [order_a, order_e])
   \<and> get_top_products (snd (run_pipeline example_pandas (chunked 2 [order_a, order_e]))) 1 =
     Inr [\<lparr>name = ''Gadget'', revenue_total = 180, total_units_sold = 10, rank_by = ''revenue''\<rparr>]
   \<and> get_top_products (snd (run_pipeline example_pandas (chunked 1 [order_a, order_e]))) 1 =
     Inr [\<lparr>name = ''Widget'', revenue_total = 180, total_units_sold = 10, rank_by = ''revenue''\<rparr>]"
proof -
  have a: "snd (run_pipeline example_pandas (chunked 2 [order_a, order_e])) =
      process_chunk init_aggregator [cleaned_a, cleaned_e]"
    "snd (run_pipeline example_pandas (chunked 1 [order_a, order_e])) =
      process_chunk (process_chunk init_aggregator [cleaned_a]) [cleaned_e]"
    unfolding run_pipeline_aggregator by (simp_all add: more_cleaned_examples)
  have "distinct (map order_id [order_a, order_e])"
    by (simp add: order_a_def order_e_def)
  moreover have "get_top_products (process_chunk init_aggregator [cleaned_a, cleaned_e]) 1 =
     Inr [\<lparr>name = ''Gadget'', revenue_total = 180, total_units_sold = 10, rank_by = ''revenue''\<rparr>]"
    by (subst aggregator_fields[of "process_chunk init_aggregator [cleaned_a, cleaned_e]"])
      (simp only: more_product_dict_examples top_products_of_dicts)
  moreover have "get_top_products (process_chunk (process_chunk init_aggregator [cleaned_a]) [cleaned_e]) 1 =
     Inr [\<lparr>name = ''Widget'', revenue_total = 180, total_units_sold = 10, rank_by = ''revenue''\<rparr>]"
    by (subst aggregator_fields[of "process_chunk (process_chunk init_aggregator [cleaned_a]) [cleaned_e]"])
      (simp only: more_product_dict_examples top_products_of_dicts)
  ultimately show ?thesis unfolding a by blast
qed

section \<open>Finalizing an aggregator that absorbed nothing\<close>

text \<open>
  Claim C9. On the aggregator's initial state the monthly summary, the top products and
  the anomaly records each return an empty frame and no error; and this is the state of
  the aggregator after every run in which no batch was absorbed, that is, in which every
  batch was empty after cleaning.
\<close>

theorem finalize_empty:
  "get_monthly_sales_summary init_aggregator = Inr []
   \<and> get_top_products init_aggregator top_n = Inr []
   \<and> get_anomaly_records init_aggregator top_n = Inr []
   \<and> ((\<forall>b \<in> set chunks. clean_rows env b = []) \<longrightarrow>
        snd (run_pipeline env chunks) = init_aggregator)"
proof -
  have "filter (\<lambda>c. c \<noteq> []) (map (clean_rows env) chunks) = []"
    if "\<forall>b \<in> set chunks. clean_rows env b = []"
    using that by (simp add: filter_empty_conv)
  then have "(\<forall>b \<in> set chunks. clean_rows env b = []) \<longrightarrow>
        snd (run_pipeline env chunks) = init_aggregator"
    by (simp add: run_pipeline_aggregator)
  then show ?thesis
    by (simp add: get_monthly_sales_summary_def get_top_products_def get_anomaly_records_def
        init_aggregator_def)
qed

theorem finalize_empty_witness:
  "clean_rows example_pandas [order_bad] = []
   \<and> snd (run_pipeline example_pandas [[order_bad]]) = init_aggregator
   \<and> get_monthly_sales_summary (snd (run_pipeline example_pandas [[order_bad]])) = Inr []
   \<and> get_top_products (snd (run_pipeline example_pandas [[order_bad]])) 10 = Inr []
   \<and> get_anomaly_records (snd (run_pipeline example_pandas [[order_bad]])) 5 = Inr []"
proof -
  have c: "clean_rows example_pandas [order_bad] = []"
    by code_simp
  then have "\<forall>b \<in> set [[order_bad]]. clean_rows example_pandas b = []"
    by simp
  then have "snd (run_pipeline example_pandas [[order_bad]]) = init_aggregator"
    using finalize_empty[of 10 "[[order_bad]]" example_pandas] by blast
  then show ?thesis
    using c finalize_empty[of 10 "[[order_bad]]" example_pandas]
      finalize_empty[of 5 "[[order_bad]]" example_pandas]
    by simp
qed

end
